theory Spec2Isabelle
  imports Main "HOL-Library.AList"
begin

section \<open>The packaging manifest \<^verbatim>\<open>python/setup.py\<close>\<close>

text \<open>
  The source file is one module-level assignment followed by one call of \<^verbatim>\<open>setup\<close>
  with keyword arguments.  The keyword arguments are modelled as a record with one field per
  keyword, in the order of the source; Python lists are HOL lists and Python dictionaries are
  association lists in insertion order.
\<close>

subsection \<open>Python dictionaries\<close>

text \<open>
  A dictionary display \<^verbatim>\<open>{k1: v1, k2: v2, ...}\<close> inserts its items from left to right; a
  key that is repeated keeps its first position and takes the last value.
\<close>

definition dict_literal :: "('k \<times> 'v) list \<Rightarrow> ('k \<times> 'v) list" where
  "dict_literal kvs = foldl (\<lambda>d (k, v). AList.update k v d) [] kvs"

definition dict_keys :: "('k \<times> 'v) list \<Rightarrow> 'k list" where
  "dict_keys d = map fst d"

definition dict_get :: "('k \<times> 'v) list \<Rightarrow> 'k \<Rightarrow> 'v option" where
  "dict_get d k = map_of d k"

subsection \<open>The keyword arguments of \<^verbatim>\<open>setup\<close>\<close>

record setup_args =
  name :: string
  version :: string
  description :: string
  author :: string
  author_email :: string
  url :: string
  license :: string
  classifiers :: "string list"
  packages :: "string list"
  install_requires :: "string list"
  extras_require :: "(string \<times> string list) list"
  entry_points :: "(string \<times> string list) list"

definition jsonpatch_uri :: string where
  "jsonpatch_uri = ''jsonpatch@https://github.com/cjh1/python-json-patch/archive/tomviz.zip''"

text \<open>
  The value of \<^verbatim>\<open>packages\<close> is whatever \<^verbatim>\<open>find_packages()\<close> returns for the directory the
  manifest is run in; it is a parameter of the model.
\<close>

definition setup_kwargs :: "string list \<Rightarrow> setup_args" where
  "setup_kwargs find_packages =
     \<lparr> name = ''tomviz-pipeline'',
       version = ''0.0.1'',
       description = ''Tomviz python external pipeline execution infrastructure.'',
       author = ''Kitware, Inc.'',
       author_email = ''kitware@kitware.com'',
       url = ''https://www.tomviz.org/'',
       license = ''BSD 3-Clause'',
       classifiers = [
         ''Development Status :: 3 - Alpha'',
         ''License :: OSI Approved :: BSD 3-Clause'',
         ''Operating System :: OS Independent'',
         ''Programming Language :: Python'',
         ''Programming Language :: Python :: 2'',
         ''Programming Language :: Python :: 2.7'',
         ''Programming Language :: Python :: 3'',
         ''Programming Language :: Python :: 3.5''
       ],
       packages = find_packages,
       install_requires = [''tqdm'', ''h5py'', ''numpy'', ''click'', ''scipy''],
       extras_require = dict_literal [
         (''interactive'', [
            jsonpatch_uri, ''marshmallow'']),
         (''itk'', [''itk'']),
         (''pyfftw'', [''pyfftw''])
       ],
       entry_points = dict_literal [
         (''console_scripts'', [
            ''tomviz-pipeline = tomviz.cli:main''
          ])
       ] \<rparr>"

subsection \<open>Reading the manifest's strings\<close>

text \<open>
  The manifest only carries strings.  What a string declares is fixed by the packaging
  conventions: an entry point is written \<^verbatim>\<open>name = module:attr\<close>, a requirement is a project
  name followed either by \<^verbatim>\<open>@\<close> and a URL or by a version specifier.  The functions below
  read the strings accordingly, so that properties of the declared names can be stated.
\<close>

definition strip_spaces :: "string \<Rightarrow> string" where
  "strip_spaces s =
     rev (dropWhile (\<lambda>c. c = CHR '' '') (rev (dropWhile (\<lambda>c. c = CHR '' '') s)))"

datatype entry_point =
  EntryPoint (ep_name: string) (ep_module: string) (ep_attr: "string option")

definition parse_entry_point :: "string \<Rightarrow> entry_point option" where
  "parse_entry_point s =
     (case dropWhile (\<lambda>c. c \<noteq> CHR ''='') s of
        [] \<Rightarrow> None
      | _ # rhs \<Rightarrow>
          (let target = strip_spaces rhs in
           Some (EntryPoint
             (strip_spaces (takeWhile (\<lambda>c. c \<noteq> CHR ''='') s))
             (strip_spaces (takeWhile (\<lambda>c. c \<noteq> CHR '':'') target))
             (case dropWhile (\<lambda>c. c \<noteq> CHR '':'') target of
                [] \<Rightarrow> None
              | _ # a \<Rightarrow> Some (strip_spaces a)))))"

definition console_scripts :: "setup_args \<Rightarrow> entry_point option list" where
  "console_scripts m =
     (case dict_get (entry_points m) ''console_scripts'' of
        None \<Rightarrow> []
      | Some eps \<Rightarrow> map parse_entry_point eps)"

definition name_char :: "char \<Rightarrow> bool" where
  "name_char c \<longleftrightarrow>
     c \<in> set (''abcdefghijklmnopqrstuvwxyz'' @ ''ABCDEFGHIJKLMNOPQRSTUVWXYZ''
              @ ''0123456789'' @ ''-_.'')"

datatype requirement =
  Requirement (rq_name: string) (rq_url: "string option") (rq_specifier: string)

definition parse_requirement :: "string \<Rightarrow> requirement" where
  "parse_requirement r =
     (let s = strip_spaces r;
          rest = strip_spaces (dropWhile name_char s)
      in case rest of
           [] \<Rightarrow> Requirement (takeWhile name_char s) None []
         | c # u \<Rightarrow>
             if c = CHR ''@''
             then Requirement (takeWhile name_char s) (Some (strip_spaces u)) []
             else Requirement (takeWhile name_char s) None rest)"

definition req_names :: "string list \<Rightarrow> string list" where
  "req_names rs = map (\<lambda>r. rq_name (parse_requirement r)) rs"

text \<open>
  An extra is a named group of additional requirements, installed only when it is
  requested: the requirements of an install are the unconditional ones followed by the
  lists of the requested extras.  An extra the manifest does not declare adds nothing.
\<close>

definition extra_requires :: "setup_args \<Rightarrow> string \<Rightarrow> string list" where
  "extra_requires m e = (case dict_get (extras_require m) e of None \<Rightarrow> [] | Some rs \<Rightarrow> rs)"

definition requirements :: "setup_args \<Rightarrow> string list \<Rightarrow> string list" where
  "requirements m extras = install_requires m @ concat (map (extra_requires m) extras)"

section \<open>Evaluation of the dictionary displays\<close>

text \<open>
  The readers tell the forms apart: a repeated key of a display keeps one item, a
  requirement with a version specifier keeps the specifier, and a string with no \<^verbatim>\<open>=\<close> is
  not an entry point.
\<close>

lemma dict_literal_repeated_key:
  "dict_literal [(''a'', 1::nat), (''b'', 2), (''a'', 3)] = [(''a'', 3), (''b'', 2)]"
  by (simp add: dict_literal_def)

lemma parse_requirement_with_specifier:
  "parse_requirement ''numpy >= 1.0'' = Requirement ''numpy'' None ''>= 1.0''"
  by (simp add: parse_requirement_def strip_spaces_def name_char_def)

lemma parse_entry_point_malformed:
  "parse_entry_point ''tomviz-pipeline'' = None"
  by (simp add: parse_entry_point_def)

lemma extras_require_value:
  "extras_require (setup_kwargs pkgs) =
     [(''interactive'', [jsonpatch_uri, ''marshmallow'']),
      (''itk'', [''itk'']),
      (''pyfftw'', [''pyfftw''])]"
  by (simp add: setup_kwargs_def dict_literal_def)

lemma entry_points_value:
  "entry_points (setup_kwargs pkgs) =
     [(''console_scripts'', [''tomviz-pipeline = tomviz.cli:main''])]"
  by (simp add: setup_kwargs_def dict_literal_def)

lemma console_scripts_value:
  "console_scripts (setup_kwargs pkgs) =
     [Some (EntryPoint ''tomviz-pipeline'' ''tomviz.cli'' (Some ''main''))]"
  by (simp add: console_scripts_def entry_points_value dict_get_def
      parse_entry_point_def strip_spaces_def)

lemma install_requires_value:
  "install_requires (setup_kwargs pkgs) = [''tqdm'', ''h5py'', ''numpy'', ''click'', ''scipy'']"
  by (simp add: setup_kwargs_def)

lemma extra_requires_interactive:
  "extra_requires (setup_kwargs pkgs) ''interactive'' = [jsonpatch_uri, ''marshmallow'']"
  by (simp add: extra_requires_def dict_get_def extras_require_value)

lemma extra_requires_itk:
  "extra_requires (setup_kwargs pkgs) ''itk'' = [''itk'']"
  by (simp add: extra_requires_def dict_get_def extras_require_value)

lemma extra_requires_pyfftw:
  "extra_requires (setup_kwargs pkgs) ''pyfftw'' = [''pyfftw'']"
  by (simp add: extra_requires_def dict_get_def extras_require_value)

lemma extras_keys:
  "dict_keys (extras_require (setup_kwargs pkgs)) = [''interactive'', ''itk'', ''pyfftw'']"
  by (simp add: dict_keys_def extras_require_value)

section \<open>Reading the requirement strings of the manifest\<close>

lemma parse_jsonpatch_uri:
  "parse_requirement jsonpatch_uri =
     Requirement ''jsonpatch''
       (Some ''https://github.com/cjh1/python-json-patch/archive/tomviz.zip'') []"
  by (simp add: parse_requirement_def jsonpatch_uri_def strip_spaces_def name_char_def)

lemma parse_base_requirements:
  "map parse_requirement [''tqdm'', ''h5py'', ''numpy'', ''click'', ''scipy''] =
     [Requirement ''tqdm'' None [], Requirement ''h5py'' None [],
      Requirement ''numpy'' None [], Requirement ''click'' None [],
      Requirement ''scipy'' None []]"
  by (simp add: parse_requirement_def strip_spaces_def name_char_def)

lemma parse_marshmallow:
  "parse_requirement ''marshmallow'' = Requirement ''marshmallow'' None []"
  by (simp add: parse_requirement_def strip_spaces_def name_char_def)

lemma parse_itk:
  "parse_requirement ''itk'' = Requirement ''itk'' None []"
  by (simp add: parse_requirement_def strip_spaces_def name_char_def)

lemma parse_pyfftw:
  "parse_requirement ''pyfftw'' = Requirement ''pyfftw'' None []"
  by (simp add: parse_requirement_def strip_spaces_def name_char_def)

lemma req_names_base:
  "req_names (install_requires (setup_kwargs pkgs)) =
     [''tqdm'', ''h5py'', ''numpy'', ''click'', ''scipy'']"
  using parse_base_requirements
  by (simp add: req_names_def install_requires_value)

lemma req_names_interactive:
  "req_names (extra_requires (setup_kwargs pkgs) ''interactive'') = [''jsonpatch'', ''marshmallow'']"
  by (simp add: req_names_def extra_requires_interactive parse_jsonpatch_uri parse_marshmallow)

lemma req_names_itk:
  "req_names (extra_requires (setup_kwargs pkgs) ''itk'') = [''itk'']"
  by (simp add: req_names_def extra_requires_itk parse_itk)

lemma req_names_pyfftw:
  "req_names (extra_requires (setup_kwargs pkgs) ''pyfftw'') = [''pyfftw'']"
  by (simp add: req_names_def extra_requires_pyfftw parse_pyfftw)

section \<open>Requirements of an install\<close>

lemma requirements_base:
  "requirements m [] = install_requires m"
  by (simp add: requirements_def)

lemma requirements_single:
  "requirements m [e] = install_requires m @ extra_requires m e"
  by (simp add: requirements_def)

lemma requirements_mono:
  assumes "set es \<subseteq> set es'"
  shows "set (requirements m es) \<subseteq> set (requirements m es')"
proof -
  have "(\<Union>e\<in>set es. set (extra_requires m e)) \<subseteq> (\<Union>e\<in>set es'. set (extra_requires m e))"
    using assms by blast
  then show ?thesis
    by (auto simp add: requirements_def)
qed

section \<open>The claims\<close>

text \<open>
  C1.  The \<^verbatim>\<open>entry_points\<close> mapping has the single group \<^verbatim>\<open>console_scripts\<close>, and that
  group registers exactly one console script: its name is \<^verbatim>\<open>tomviz-pipeline\<close> and its
  target is a callable named \<^verbatim>\<open>main\<close>.  No other console command is declared.
\<close>

theorem one_console_script:
  "dict_keys (entry_points (setup_kwargs pkgs)) = [''console_scripts'']
   \<and> length (console_scripts (setup_kwargs pkgs)) = 1
   \<and> map (map_option ep_name) (console_scripts (setup_kwargs pkgs)) = [Some ''tomviz-pipeline'']
   \<and> map (map_option ep_attr) (console_scripts (setup_kwargs pkgs)) = [Some (Some ''main'')]"
  by (simp add: dict_keys_def entry_points_value console_scripts_value)

text \<open>
  C2.  The unconditional dependency list \<^verbatim>\<open>install_requires\<close> is exactly the five entries
  \<^verbatim>\<open>tqdm\<close>, \<^verbatim>\<open>h5py\<close>, \<^verbatim>\<open>numpy\<close>, \<^verbatim>\<open>click\<close>, \<^verbatim>\<open>scipy\<close>, and each entry is a bare project
  name: it carries neither a URL nor a version specifier.
\<close>

theorem install_requires_five:
  "install_requires (setup_kwargs pkgs) = [''tqdm'', ''h5py'', ''numpy'', ''click'', ''scipy'']
   \<and> length (install_requires (setup_kwargs pkgs)) = 5
   \<and> map parse_requirement (install_requires (setup_kwargs pkgs)) =
       [Requirement ''tqdm'' None [], Requirement ''h5py'' None [],
        Requirement ''numpy'' None [], Requirement ''click'' None [],
        Requirement ''scipy'' None []]"
  by (simp only: install_requires_value parse_base_requirements) simp

text \<open>
  C3.  The extras mapping declares the extra \<^verbatim>\<open>interactive\<close>; its list has exactly two
  entries, the patched JSON-patch fork, which is a direct-URL requirement, and the schema
  library \<^verbatim>\<open>marshmallow\<close>.  An install that requests \<^verbatim>\<open>interactive\<close> has the requirements of
  the base install followed by exactly these two.
\<close>

theorem interactive_extra:
  "dict_get (extras_require (setup_kwargs pkgs)) ''interactive''
     = Some [jsonpatch_uri, ''marshmallow'']
   \<and> length (extra_requires (setup_kwargs pkgs) ''interactive'') = 2
   \<and> map parse_requirement (extra_requires (setup_kwargs pkgs) ''interactive'') =
       [Requirement ''jsonpatch''
          (Some ''https://github.com/cjh1/python-json-patch/archive/tomviz.zip'') [],
        Requirement ''marshmallow'' None []]
   \<and> requirements (setup_kwargs pkgs) [''interactive''] =
       requirements (setup_kwargs pkgs) [] @ [jsonpatch_uri, ''marshmallow'']"
  by (simp add: dict_get_def extras_require_value extra_requires_interactive
      parse_jsonpatch_uri parse_marshmallow requirements_base requirements_single)

text \<open>
  C4.  The extras mapping declares the extra \<^verbatim>\<open>itk\<close>, whose list is exactly the single
  package \<^verbatim>\<open>itk\<close>.  An install that requests \<^verbatim>\<open>itk\<close> has the requirements of the base install
  followed by \<^verbatim>\<open>itk\<close> and nothing else.
\<close>

theorem itk_extra:
  "dict_get (extras_require (setup_kwargs pkgs)) ''itk'' = Some [''itk'']
   \<and> map parse_requirement (extra_requires (setup_kwargs pkgs) ''itk'') =
       [Requirement ''itk'' None []]
   \<and> requirements (setup_kwargs pkgs) [''itk''] = requirements (setup_kwargs pkgs) [] @ [''itk'']"
  by (simp add: dict_get_def extras_require_value extra_requires_itk parse_itk
      requirements_base requirements_single)

text \<open>
  C5.  The extras mapping has exactly the three keys \<^verbatim>\<open>interactive\<close>, \<^verbatim>\<open>itk\<close> and \<^verbatim>\<open>pyfftw\<close>,
  and the list of the \<^verbatim>\<open>pyfftw\<close> extra is exactly the single package \<^verbatim>\<open>pyfftw\<close>.
\<close>

theorem three_extras:
  "dict_keys (extras_require (setup_kwargs pkgs)) = [''interactive'', ''itk'', ''pyfftw'']
   \<and> card (set (dict_keys (extras_require (setup_kwargs pkgs)))) = 3
   \<and> dict_get (extras_require (setup_kwargs pkgs)) ''pyfftw'' = Some [''pyfftw'']
   \<and> map parse_requirement (extra_requires (setup_kwargs pkgs) ''pyfftw'') =
       [Requirement ''pyfftw'' None []]"
  by (simp add: dict_keys_def dict_get_def extras_require_value extra_requires_pyfftw parse_pyfftw)

text \<open>
  C6.  The \<^verbatim>\<open>license\<close> field is the string \<^verbatim>\<open>BSD 3-Clause\<close>, and the classifiers list
  declares Python 2.7 and Python 3.
\<close>

theorem license_and_classifiers:
  "license (setup_kwargs pkgs) = ''BSD 3-Clause''
   \<and> ''Programming Language :: Python :: 2.7'' \<in> set (classifiers (setup_kwargs pkgs))
   \<and> ''Programming Language :: Python :: 3'' \<in> set (classifiers (setup_kwargs pkgs))
   \<and> ''Programming Language :: Python :: 3.5'' \<in> set (classifiers (setup_kwargs pkgs))"
  by (simp add: setup_kwargs_def)

text \<open>
  C7.  Extras only add requirements.  For every extra name of the extras mapping, the
  requirements of the base install are among the requirements of an install with that extra,
  and properly so: the extra's list is not empty.  The five unconditional dependencies are
  still there, in place, in front of the extra's list, and the extra's list names none of
  their projects, so that no entry of it replaces or constrains one of the five; every project
  of the install with the extra is required once.  More generally the requirements grow with
  the set of requested extras.
\<close>

theorem extras_only_add:
  "(\<forall>e \<in> set (dict_keys (extras_require (setup_kwargs pkgs))).
       set (requirements (setup_kwargs pkgs) []) \<subseteq> set (requirements (setup_kwargs pkgs) [e])
     \<and> requirements (setup_kwargs pkgs) [e] =
         [''tqdm'', ''h5py'', ''numpy'', ''click'', ''scipy''] @ extra_requires (setup_kwargs pkgs) e
     \<and> extra_requires (setup_kwargs pkgs) e \<noteq> []
     \<and> set (requirements (setup_kwargs pkgs) []) \<subset> set (requirements (setup_kwargs pkgs) [e])
     \<and> set (req_names (extra_requires (setup_kwargs pkgs) e))
         \<inter> set (req_names (install_requires (setup_kwargs pkgs))) = {}
     \<and> distinct (req_names (requirements (setup_kwargs pkgs) [e])))
   \<and> (\<forall>es es'. set es \<subseteq> set es' \<longrightarrow>
         set (requirements (setup_kwargs pkgs) es) \<subseteq> set (requirements (setup_kwargs pkgs) es'))"
proof (intro conjI ballI allI impI)
  fix e
  assume "e \<in> set (dict_keys (extras_require (setup_kwargs pkgs)))"
  then have e: "e = ''interactive'' \<or> e = ''itk'' \<or> e = ''pyfftw''"
    by (simp add: extras_keys)
  let ?m = "setup_kwargs pkgs"
  have names: "req_names (requirements ?m [e]) =
      req_names (install_requires ?m) @ req_names (extra_requires ?m e)"
    by (simp add: requirements_single req_names_def)
  show "set (requirements ?m []) \<subseteq> set (requirements ?m [e])"
    by (rule requirements_mono) simp
  show "requirements ?m [e] =
          [''tqdm'', ''h5py'', ''numpy'', ''click'', ''scipy''] @ extra_requires ?m e"
    by (simp only: requirements_single install_requires_value)
  show "extra_requires ?m e \<noteq> []"
    using e by (auto simp add: extra_requires_interactive extra_requires_itk extra_requires_pyfftw)
  show "set (requirements ?m []) \<subset> set (requirements ?m [e])"
  proof -
    have "''marshmallow'' \<in> set (requirements ?m [''interactive''])
        \<and> ''itk'' \<in> set (requirements ?m [''itk''])
        \<and> ''pyfftw'' \<in> set (requirements ?m [''pyfftw''])"
      by (simp add: requirements_single extra_requires_interactive extra_requires_itk
          extra_requires_pyfftw)
    moreover have "''marshmallow'' \<notin> set (requirements ?m [])
        \<and> ''itk'' \<notin> set (requirements ?m []) \<and> ''pyfftw'' \<notin> set (requirements ?m [])"
      by (simp add: requirements_base install_requires_value)
    moreover have "set (requirements ?m []) \<subseteq> set (requirements ?m [e])"
      by (rule requirements_mono) simp
    ultimately show ?thesis
      using e by blast
  qed
  show disj: "set (req_names (extra_requires ?m e)) \<inter> set (req_names (install_requires ?m)) = {}"
    using e
    by (auto simp add: req_names_base req_names_interactive req_names_itk req_names_pyfftw)
  have "distinct (req_names (extra_requires ?m e))"
    using e by (auto simp add: req_names_interactive req_names_itk req_names_pyfftw)
  moreover have "distinct (req_names (install_requires ?m))"
    by (simp add: req_names_base)
  ultimately show "distinct (req_names (requirements ?m [e]))"
    using disj by (simp only: names distinct_append) blast
next
  fix es es' :: "string list"
  assume "set es \<subseteq> set es'"
  then show "set (requirements (setup_kwargs pkgs) es) \<subseteq> set (requirements (setup_kwargs pkgs) es')"
    by (rule requirements_mono)
qed

theorem extras_only_add_witness:
  "''interactive'' \<in> set (dict_keys (extras_require (setup_kwargs [''tomviz''])))
   \<and> set (requirements (setup_kwargs [''tomviz'']) [])
       \<subseteq> set (requirements (setup_kwargs [''tomviz'']) [''interactive''])
   \<and> requirements (setup_kwargs [''tomviz'']) [''interactive''] =
       [''tqdm'', ''h5py'', ''numpy'', ''click'', ''scipy'', jsonpatch_uri, ''marshmallow'']
   \<and> extra_requires (setup_kwargs [''tomviz'']) ''interactive'' \<noteq> []
   \<and> set (requirements (setup_kwargs [''tomviz'']) [])
       \<subset> set (requirements (setup_kwargs [''tomviz'']) [''interactive''])
   \<and> set [''jsonpatch'', ''marshmallow'']
       \<inter> set [''tqdm'', ''h5py'', ''numpy'', ''click'', ''scipy''] = {}
   \<and> distinct (req_names (requirements (setup_kwargs [''tomviz'']) [''interactive'']))
   \<and> set [''interactive''] \<subseteq> set [''pyfftw'', ''interactive'']
   \<and> set (requirements (setup_kwargs [''tomviz'']) [''interactive''])
       \<subseteq> set (requirements (setup_kwargs [''tomviz'']) [''pyfftw'', ''interactive''])"
proof -
  let ?m = "setup_kwargs [''tomviz'']"
  note t = extras_only_add [of "[''tomviz'']"]
  have k: "''interactive'' \<in> set (dict_keys (extras_require ?m))"
    by (simp add: extras_keys)
  have s: "set [''interactive''] \<subseteq> set [''pyfftw'', ''interactive'']"
    by simp
  from t k have a: "set (requirements ?m []) \<subseteq> set (requirements ?m [''interactive''])"
    by blast
  from t k have "requirements ?m [''interactive''] =
      [''tqdm'', ''h5py'', ''numpy'', ''click'', ''scipy''] @ extra_requires ?m ''interactive''"
    by blast
  then have b: "requirements ?m [''interactive''] =
      [''tqdm'', ''h5py'', ''numpy'', ''click'', ''scipy'', jsonpatch_uri, ''marshmallow'']"
    by (simp add: extra_requires_interactive)
  from t k have c: "extra_requires ?m ''interactive'' \<noteq> []"
    by blast
  from t k have d: "set (requirements ?m []) \<subset> set (requirements ?m [''interactive''])"
    by blast
  from t k have "set (req_names (extra_requires ?m ''interactive''))
      \<inter> set (req_names (install_requires ?m)) = {}"
    by blast
  then have f: "set [''jsonpatch'', ''marshmallow'']
      \<inter> set [''tqdm'', ''h5py'', ''numpy'', ''click'', ''scipy''] = {}"
    by (simp only: req_names_interactive req_names_base)
  from t k have g: "distinct (req_names (requirements ?m [''interactive'']))"
    by blast
  from t s have h: "set (requirements ?m [''interactive''])
      \<subseteq> set (requirements ?m [''pyfftw'', ''interactive''])"
    by blast
  from k a b c d f g s h show ?thesis
    by (intro conjI)
qed

text \<open>
  C8.  The manifest fixes the module behind the console command: the entry point string is
  exactly \<^verbatim>\<open>tomviz-pipeline = tomviz.cli:main\<close>, that is the callable \<^verbatim>\<open>main\<close> of the module
  \<^verbatim>\<open>tomviz.cli\<close>.
\<close>

theorem entry_point_module:
  "dict_get (entry_points (setup_kwargs pkgs)) ''console_scripts''
     = Some [''tomviz-pipeline = tomviz.cli:main'']
   \<and> parse_entry_point ''tomviz-pipeline = tomviz.cli:main''
     = Some (EntryPoint ''tomviz-pipeline'' ''tomviz.cli'' (Some ''main''))
   \<and> map (map_option ep_module) (console_scripts (setup_kwargs pkgs)) = [Some ''tomviz.cli'']"
  by (simp add: dict_get_def entry_points_value console_scripts_value
      parse_entry_point_def strip_spaces_def)

text \<open>
  C9.  The base dependency list and the lists of the three extras are pairwise disjoint by
  project name, and no list names a project twice: the project names of the four lists, put
  one after the other, are all different, and so are the entries themselves.
\<close>

theorem requirement_lists_disjoint:
  "distinct (req_names (install_requires (setup_kwargs pkgs)))
   \<and> distinct (req_names (extra_requires (setup_kwargs pkgs) ''interactive''))
   \<and> distinct (req_names (extra_requires (setup_kwargs pkgs) ''itk''))
   \<and> distinct (req_names (extra_requires (setup_kwargs pkgs) ''pyfftw''))
   \<and> set (req_names (install_requires (setup_kwargs pkgs)))
       \<inter> set (req_names (extra_requires (setup_kwargs pkgs) ''interactive'')) = {}
   \<and> set (req_names (install_requires (setup_kwargs pkgs)))
       \<inter> set (req_names (extra_requires (setup_kwargs pkgs) ''itk'')) = {}
   \<and> set (req_names (install_requires (setup_kwargs pkgs)))
       \<inter> set (req_names (extra_requires (setup_kwargs pkgs) ''pyfftw'')) = {}
   \<and> set (req_names (extra_requires (setup_kwargs pkgs) ''interactive''))
       \<inter> set (req_names (extra_requires (setup_kwargs pkgs) ''itk'')) = {}
   \<and> set (req_names (extra_requires (setup_kwargs pkgs) ''interactive''))
       \<inter> set (req_names (extra_requires (setup_kwargs pkgs) ''pyfftw'')) = {}
   \<and> set (req_names (extra_requires (setup_kwargs pkgs) ''itk''))
       \<inter> set (req_names (extra_requires (setup_kwargs pkgs) ''pyfftw'')) = {}
   \<and> distinct (install_requires (setup_kwargs pkgs)
                 @ concat (map snd (extras_require (setup_kwargs pkgs))))"
  by (simp only: req_names_base req_names_interactive req_names_itk req_names_pyfftw)
    (simp add: install_requires_value extras_require_value jsonpatch_uri_def)

text \<open>
  C10.  The patched JSON-patch requirement of the \<^verbatim>\<open>interactive\<close> extra is the string
  \<^verbatim>\<open>jsonpatch@https://github.com/cjh1/python-json-patch/archive/tomviz.zip\<close>: a direct-URL
  requirement for the project \<^verbatim>\<open>jsonpatch\<close> that points at the archive of the fork, with no
  version specifier.
\<close>

theorem jsonpatch_direct_url:
  "jsonpatch_uri = ''jsonpatch@https://github.com/cjh1/python-json-patch/archive/tomviz.zip''
   \<and> hd (extra_requires (setup_kwargs pkgs) ''interactive'') = jsonpatch_uri
   \<and> rq_name (parse_requirement jsonpatch_uri) = ''jsonpatch''
   \<and> rq_url (parse_requirement jsonpatch_uri)
       = Some ''https://github.com/cjh1/python-json-patch/archive/tomviz.zip''
   \<and> rq_specifier (parse_requirement jsonpatch_uri) = []"
  by (simp add: extra_requires_interactive parse_jsonpatch_uri) (simp add: jsonpatch_uri_def)

end
